theory Spec2Isabelle
  imports Complex_Main "HOL-Library.AList" "HOL-Library.Log_Nat"
begin

section \<open>Values shared by both modules\<close>

text \<open>
  A Python \<open>float\<close> is an IEEE 754 binary64 value. A finite one is the rational number it
  denotes; the two zeros, which Python's \<open>==\<close>, \<open><\<close> and \<open>>\<close> do not tell apart and
  which both make a division raise, are the one value \<open>Finite 0\<close>.
\<close>

datatype pyfloat = Finite rat | PosInf | NegInf | NaN

text \<open>
  The exceptions the two source files can raise: \<open>HTTPException(status_code, detail)\<close>
  in \<open>main.py\<close>; \<open>ZeroDivisionError\<close> (a float division by zero) and
  \<open>AttributeError\<close> (an attribute read before any assignment) in
  \<open>CommonStatCalculations.py\<close>.
\<close>

datatype error = HTTPException nat string | ZeroDivisionError | AttributeError

subsection \<open>Rounding to binary64\<close>

text \<open>
  \<open>ilog2 x\<close> is the binary exponent of a positive rational: the integer \<open>e\<close> with
  \<open>2 powi e \<le> x < 2 powi (e + 1)\<close>.
\<close>

definition ilog2 :: "rat \<Rightarrow> int" where
  "ilog2 x = (if 1 \<le> x then bitlen \<lfloor>x\<rfloor> - 1 else - bitlen (\<lceil>1 / x\<rceil> - 1))"

definition round_half_even :: "rat \<Rightarrow> int" where
  "round_half_even y =
     (let f = \<lfloor>y\<rfloor>; d = y - of_int f
      in if d < 1 / 2 then f else if 1 / 2 < d then f + 1 else if even f then f else f + 1)"

text \<open>
  Round to nearest, ties to even, with 53 significant bits, the exponent of a normal
  number at least \<open>-1022\<close> (below that the spacing stays \<open>2 powi -1074\<close>: subnormal
  numbers), and a rounded magnitude of \<open>2 ^ 1024\<close> or more, one whose exponent
  exceeds 1023, overflowing to an infinity.
\<close>

definition round_double :: "rat \<Rightarrow> pyfloat" where
  "round_double x =
     (if x = 0 then Finite 0
      else
        let e = max (ilog2 \<bar>x\<bar>) (- 1022) - 52;
            r = of_int (round_half_even (x / 2 powi e)) * 2 powi e
        in if r \<noteq> 0 \<and> 1023 < ilog2 \<bar>r\<bar> then (if 0 < r then PosInf else NegInf)
           else Finite r)"

text \<open>The rationals that are binary64 values, and the value of a decimal literal.\<close>

definition is_double :: "rat \<Rightarrow> bool" where
  "is_double q = (round_double q = Finite q)"

definition float_literal :: "rat \<Rightarrow> pyfloat" where
  "float_literal q = round_double q"

subsection \<open>Float operations\<close>

fun fneg :: "pyfloat \<Rightarrow> pyfloat" where
  "fneg (Finite a) = Finite (- a)"
| "fneg PosInf = NegInf"
| "fneg NegInf = PosInf"
| "fneg NaN = NaN"

fun fabs :: "pyfloat \<Rightarrow> pyfloat" where
  "fabs (Finite a) = Finite \<bar>a\<bar>"
| "fabs PosInf = PosInf"
| "fabs NegInf = PosInf"
| "fabs NaN = NaN"

fun fadd :: "pyfloat \<Rightarrow> pyfloat \<Rightarrow> pyfloat" where
  "fadd NaN y = NaN"
| "fadd x NaN = NaN"
| "fadd (Finite a) (Finite b) = round_double (a + b)"
| "fadd PosInf NegInf = NaN"
| "fadd NegInf PosInf = NaN"
| "fadd PosInf y = PosInf"
| "fadd NegInf y = NegInf"
| "fadd x PosInf = PosInf"
| "fadd x NegInf = NegInf"

definition fsub :: "pyfloat \<Rightarrow> pyfloat \<Rightarrow> pyfloat" where
  "fsub x y = fadd x (fneg y)"

fun signed_inf :: "bool \<Rightarrow> pyfloat" where
  "signed_inf True = NegInf"
| "signed_inf False = PosInf"

fun is_negative :: "pyfloat \<Rightarrow> bool" where
  "is_negative (Finite a) = (a < 0)"
| "is_negative NegInf = True"
| "is_negative PosInf = False"
| "is_negative NaN = False"

fun is_inf :: "pyfloat \<Rightarrow> bool" where
  "is_inf PosInf = True"
| "is_inf NegInf = True"
| "is_inf x = False"

fun fmul :: "pyfloat \<Rightarrow> pyfloat \<Rightarrow> pyfloat" where
  "fmul NaN y = NaN"
| "fmul x NaN = NaN"
| "fmul (Finite a) (Finite b) = round_double (a * b)"
| "fmul x y =
     (if x = Finite 0 \<or> y = Finite 0 then NaN
      else signed_inf (is_negative x \<noteq> is_negative y))"

text \<open>The quotient by a divisor that is not zero.\<close>

fun fdiv :: "pyfloat \<Rightarrow> pyfloat \<Rightarrow> pyfloat" where
  "fdiv NaN y = NaN"
| "fdiv x NaN = NaN"
| "fdiv (Finite a) (Finite b) = round_double (a / b)"
| "fdiv (Finite a) y = Finite 0"
| "fdiv x y =
     (if is_inf y then NaN else signed_inf (is_negative x \<noteq> is_negative y))"

text \<open>
  Python's \<open>/\<close> on floats raises \<open>ZeroDivisionError\<close> when the divisor is zero, whatever
  the dividend, and is the IEEE quotient otherwise.
\<close>

definition py_truediv :: "pyfloat \<Rightarrow> pyfloat \<Rightarrow> error + pyfloat" where
  "py_truediv x y = (if y = Finite 0 then Inl ZeroDivisionError else Inr (fdiv x y))"

fun flt :: "pyfloat \<Rightarrow> pyfloat \<Rightarrow> bool" where
  "flt NaN y = False"
| "flt x NaN = False"
| "flt (Finite a) (Finite b) = (a < b)"
| "flt x PosInf = (x \<noteq> PosInf)"
| "flt NegInf y = (y \<noteq> NegInf)"
| "flt x y = False"

definition fgt :: "pyfloat \<Rightarrow> pyfloat \<Rightarrow> bool" where
  "fgt x y = flt y x"

text \<open>\<open>max(a, b)\<close> keeps \<open>a\<close> unless \<open>b > a\<close>.\<close>

definition py_max :: "pyfloat \<Rightarrow> pyfloat \<Rightarrow> pyfloat" where
  "py_max a b = (if fgt b a then b else a)"

section \<open>The order registry (\<open>Backend/API/main.py\<close>)\<close>

subsection \<open>Models\<close>

datatype Side = BUY | SELL

datatype OrderType = MARKET | LIMIT

datatype TimeInForce = DAY | GTC

text \<open>A \<open>datetime\<close> is a point in time, counted in microseconds.\<close>

type_synonym datetime = int

record AccountBalance =
  b_currency :: string
  b_cash :: pyfloat
  b_equity :: pyfloat
  b_buying_power :: pyfloat
  b_timestamp :: datetime

record Position =
  p_symbol :: string
  p_qty :: pyfloat
  p_avg_price :: pyfloat
  p_side :: string

record OrderRequest =
  r_symbol :: string
  r_side :: Side
  r_qty :: pyfloat
  r_order_type :: OrderType
  r_limit_price :: "pyfloat option"
  r_tif :: TimeInForce
  r_client_order_id :: "string option"

record Order =
  o_id :: string
  o_symbol :: string
  o_side :: Side
  o_qty :: pyfloat
  o_order_type :: OrderType
  o_limit_price :: "pyfloat option"
  o_tif :: TimeInForce
  o_status :: string
  o_created_at :: datetime
  o_avg_fill_price :: "pyfloat option"
  o_filled_qty :: pyfloat

text \<open>
  The module-level dictionary \<open>STATE\<close>. Its entry \<open>"orders"\<close> is a Python \<open>dict\<close>:
  keys are unique, iteration follows insertion order, and assigning to an existing key
  replaces the value in place. That is an association list updated with \<open>AList.update\<close>.
\<close>

record STATE =
  balance :: AccountBalance
  positions :: "Position list"
  orders :: "(string \<times> Order) list"

definition STATE_initial :: "datetime \<Rightarrow> STATE" where
  "STATE_initial t =
     \<lparr>balance = \<lparr>b_currency = ''USD'', b_cash = Finite 100001, b_equity = Finite 100000,
                  b_buying_power = Finite 200000, b_timestamp = t\<rparr>,
      positions =
        [\<lparr>p_symbol = ''AAPL'', p_qty = Finite 50, p_avg_price = Finite 190, p_side = ''LONG''\<rparr>,
         \<lparr>p_symbol = ''TSLA'', p_qty = Finite 10, p_avg_price = Finite 240, p_side = ''SHORT''\<rparr>],
      orders = []\<rparr>"

text \<open>\<open>STATE["orders"].values()\<close>: the stored orders in insertion order.\<close>

definition values_of :: "(string \<times> Order) list \<Rightarrow> Order list" where
  "values_of d = map snd d"

subsection \<open>Strings\<close>

text \<open>
  A Python \<open>str\<close> is the list of its characters, a character beyond ASCII being the
  bytes of its UTF-8 encoding: equal strings are equal lists, and only the empty string is
  the empty list. \<open>str.upper()\<close> follows the Unicode case tables, which are no part of
  the repository (it can even lengthen a string), so \<open>place_order\<close> takes it as its
  argument \<open>upper\<close> and nothing is assumed about it.
\<close>

text \<open>
  Truth value of an \<open>Optional[str]\<close>: \<open>None\<close> and the empty string are false.
  \<open>a or b\<close> is \<open>a\<close> when \<open>a\<close> is true and \<open>b\<close> otherwise.
\<close>

definition truthy :: "string option \<Rightarrow> bool" where
  "truthy x = (case x of None \<Rightarrow> False | Some s \<Rightarrow> s \<noteq> [])"

definition str_or :: "string option \<Rightarrow> string \<Rightarrow> string" where
  "str_or x d = (case x of None \<Rightarrow> d | Some s \<Rightarrow> if s \<noteq> [] then s else d)"

subsection \<open>Handlers\<close>

text \<open>
  Every handler takes the current \<open>STATE\<close> and returns its result, an order or the
  exception it raises, with the \<open>STATE\<close> it leaves behind.
\<close>

definition get_open_orders :: "STATE \<Rightarrow> Order list \<times> STATE" where
  "get_open_orders st =
     ([x \<leftarrow> values_of (orders st). o_status x \<in> {''NEW'', ''PARTIALLY_FILLED''}], st)"

text \<open>
  The loop of \<open>place_order\<close> over the stored orders: it returns the first order whose
  \<open>id\<close> equals a true \<open>client_order_id\<close>, and falls through when there is none.
\<close>

fun scan_orders :: "string option \<Rightarrow> Order list \<Rightarrow> Order option" where
  "scan_orders cid [] = None"
| "scan_orders cid (x # xs) =
     (if truthy cid \<and> Some (o_id x) = cid then Some x else scan_orders cid xs)"

text \<open>
  \<open>place_order\<close> reads two things from its environment: the string of \<open>uuid.uuid4()\<close>
  and, for the default of \<open>created_at\<close>, \<open>datetime.utcnow()\<close>. They are the arguments
  \<open>uuid4\<close> and \<open>utcnow\<close>; the argument \<open>upper\<close> is the library's \<open>str.upper\<close>.
\<close>

definition place_order ::
  "(string \<Rightarrow> string) \<Rightarrow> string \<Rightarrow> datetime \<Rightarrow> OrderRequest \<Rightarrow> STATE \<Rightarrow>
     (error + Order) \<times> STATE" where
  "place_order upper uuid4 utcnow req st =
     (if r_order_type req = LIMIT \<and> r_limit_price req = None
      then (Inl (HTTPException 400 ''limit_price required for LIMIT orders''), st)
      else
        case scan_orders (r_client_order_id req) (values_of (orders st)) of
          Some x \<Rightarrow> (Inr x, st)
        | None \<Rightarrow>
            let order_id = str_or (r_client_order_id req) uuid4;
                order = \<lparr>o_id = order_id,
                         o_symbol = upper (r_symbol req),
                         o_side = r_side req,
                         o_qty = r_qty req,
                         o_order_type = r_order_type req,
                         o_limit_price = r_limit_price req,
                         o_tif = r_tif req,
                         o_status = ''NEW'',
                         o_created_at = utcnow,
                         o_avg_fill_price = None,
                         o_filled_qty = Finite 0\<rparr>
            in (Inr order, st\<lparr>orders := AList.update (o_id order) order (orders st)\<rparr>))"

definition get_order :: "string \<Rightarrow> STATE \<Rightarrow> (error + Order) \<times> STATE" where
  "get_order order_id st =
     (case map_of (orders st) order_id of
        None \<Rightarrow> (Inl (HTTPException 404 ''Order not found''), st)
      | Some order \<Rightarrow> (Inr order, st))"

section \<open>The odds calculator (\<open>Backend/TradingAndQuatifying/CommonStatCalculations.py\<close>)\<close>

text \<open>
  The attributes of an instance of \<open>StatCalculations\<close>. An attribute that no statement
  has assigned yet is \<open>None\<close>, and reading it raises \<open>AttributeError\<close>. The source
  assigns \<open>__expected_value\<close> in \<open>expected_value\<close> and reads \<open>__expectedValue\<close> in
  \<open>__init__\<close>: two attributes.
\<close>

record StatCalculations =
  attr_currentOdds :: "pyfloat option"
  attr_expectedValue :: "pyfloat option"
  attr_americanOdds :: "pyfloat option"
  attr_optimalBetSize :: "pyfloat option"
  attr_expected_value :: "pyfloat option"

text \<open>The object that \<open>__init__\<close> receives: nothing assigned.\<close>

definition new_instance :: StatCalculations where
  "new_instance =
     \<lparr>attr_currentOdds = None, attr_expectedValue = None, attr_americanOdds = None,
      attr_optimalBetSize = None, attr_expected_value = None\<rparr>"

text \<open>
  A method takes the instance and returns what it returns or raises, with the instance
  as the call leaves it: an assignment made before an exception stays.
\<close>

definition init :: "pyfloat \<Rightarrow> StatCalculations \<Rightarrow> (error + unit) \<times> StatCalculations" where
  "init currentOdds self =
     (let self1 = self\<lparr>attr_currentOdds := Some currentOdds\<rparr>
      in case attr_expectedValue self1 of
           None \<Rightarrow> (Inl AttributeError, self1)
         | Some _ \<Rightarrow>
             (case attr_americanOdds self1 of
                None \<Rightarrow> (Inl AttributeError, self1)
              | Some _ \<Rightarrow>
                  (case attr_optimalBetSize self1 of
                     None \<Rightarrow> (Inl AttributeError, self1)
                   | Some _ \<Rightarrow> (Inr (), self1))))"

text \<open>
  The call \<open>StatCalculations(currentOdds)\<close>: a new object, \<open>__init__\<close> on it, and the
  object as the value when \<open>__init__\<close> returns.
\<close>

definition new_StatCalculations :: "pyfloat \<Rightarrow> error + StatCalculations" where
  "new_StatCalculations currentOdds =
     (case init currentOdds new_instance of
        (Inl e, _) \<Rightarrow> Inl e
      | (Inr _, self) \<Rightarrow> Inr self)"

definition implied_probability_to_american ::
  "pyfloat \<Rightarrow> StatCalculations \<Rightarrow> (error + pyfloat) \<times> StatCalculations" where
  "implied_probability_to_american currentOdds self =
     (if flt currentOdds (Finite (1 / 2))
      then
        case py_truediv (Finite 100) currentOdds of
          Inl e \<Rightarrow> (Inl e, self)
        | Inr decimalOdds \<Rightarrow>
            let americanOdds = fsub decimalOdds (Finite 100)
            in (Inr americanOdds, self\<lparr>attr_americanOdds := Some americanOdds\<rparr>)
      else
        case py_truediv (fneg (fmul (Finite 100) currentOdds)) (fsub (Finite 1) currentOdds) of
          Inl e \<Rightarrow> (Inl e, self)
        | Inr americanOdds \<Rightarrow>
            (Inr americanOdds, self\<lparr>attr_americanOdds := Some americanOdds\<rparr>))"

definition american_to_decimal :: "pyfloat \<Rightarrow> error + pyfloat" where
  "american_to_decimal americanOdds =
     (if fgt americanOdds (Finite 0)
      then
        case py_truediv americanOdds (Finite 100) of
          Inl e \<Rightarrow> Inl e
        | Inr q \<Rightarrow> Inr (fadd (Finite 1) q)
      else
        case py_truediv (Finite 100) (fabs americanOdds) of
          Inl e \<Rightarrow> Inl e
        | Inr q \<Rightarrow> Inr (fadd (Finite 1) q))"

definition american_to_net :: "pyfloat \<Rightarrow> error + pyfloat" where
  "american_to_net american_odds =
     (case american_to_decimal american_odds of
        Inl e \<Rightarrow> Inl e
      | Inr d \<Rightarrow> Inr (fsub d (Finite 1)))"

definition expected_value ::
  "pyfloat \<Rightarrow> pyfloat \<Rightarrow> pyfloat \<Rightarrow> StatCalculations \<Rightarrow> (error + pyfloat) \<times> StatCalculations"
  where
  "expected_value prob odds stake self =
     (case american_to_net odds of
        Inl e \<Rightarrow> (Inl e, self)
      | Inr b \<Rightarrow>
          let ev = fsub (fmul (fmul prob b) stake) (fmul (fsub (Finite 1) prob) stake)
          in (Inr ev, self\<lparr>attr_expected_value := Some ev\<rparr>))"

definition kelly_criterion :: "StatCalculations \<Rightarrow> (error + pyfloat) \<times> StatCalculations" where
  "kelly_criterion self =
     (case attr_currentOdds self of
        None \<Rightarrow> (Inl AttributeError, self)
      | Some probOfWinning \<Rightarrow>
          let probOfLoss = fsub (Finite 1) probOfWinning
          in case attr_americanOdds self of
               None \<Rightarrow> (Inl AttributeError, self)
             | Some americanOdds \<Rightarrow>
                 (case american_to_net americanOdds of
                    Inl e \<Rightarrow> (Inl e, self)
                  | Inr netOdds \<Rightarrow>
                      (case py_truediv (fsub (fmul netOdds probOfWinning) probOfLoss) netOdds of
                         Inl e \<Rightarrow> (Inl e, self)
                       | Inr optimalBetSize \<Rightarrow>
                           let optimalBetSize' = py_max (Finite 0) optimalBetSize
                           in (Inr optimalBetSize',
                               self\<lparr>attr_optimalBetSize := Some optimalBetSize'\<rparr>))))"

text \<open>
  A history of an instance: the method calls made on it, in order. \<open>american_to_decimal\<close>
  and \<open>american_to_net\<close> neither read nor assign an attribute and leave no trace.
\<close>

datatype call =
    Call_init pyfloat
  | Call_implied_probability_to_american pyfloat
  | Call_expected_value pyfloat pyfloat pyfloat
  | Call_kelly_criterion

fun after_call :: "call \<Rightarrow> StatCalculations \<Rightarrow> StatCalculations" where
  "after_call (Call_init c) self = snd (init c self)"
| "after_call (Call_implied_probability_to_american p) self =
     snd (implied_probability_to_american p self)"
| "after_call (Call_expected_value p a k) self = snd (expected_value p a k self)"
| "after_call Call_kelly_criterion self = snd (kelly_criterion self)"

fun after_calls :: "call list \<Rightarrow> StatCalculations \<Rightarrow> StatCalculations" where
  "after_calls [] self = self"
| "after_calls (c # cs) self = after_calls cs (after_call c self)"

fun is_conversion :: "call \<Rightarrow> bool" where
  "is_conversion (Call_implied_probability_to_american p) = True"
| "is_conversion c = False"

section \<open>Example inputs\<close>

text \<open>
  An order, a registry of four orders in four states, and a request, for the examples
  that accompany the theorems.
\<close>

definition ex_order :: "string \<Rightarrow> string \<Rightarrow> Order" where
  "ex_order k status =
     \<lparr>o_id = k, o_symbol = ''AAPL'', o_side = BUY, o_qty = Finite 10, o_order_type = MARKET,
      o_limit_price = None, o_tif = DAY, o_status = status, o_created_at = 0,
      o_avg_fill_price = None, o_filled_qty = Finite 0\<rparr>"

definition ex_registry :: STATE where
  "ex_registry =
     (STATE_initial 0)\<lparr>orders :=
        [(''a'', ex_order ''a'' ''NEW''), (''b'', ex_order ''b'' ''FILLED''),
         (''c'', ex_order ''c'' ''PARTIALLY_FILLED''), (''d'', ex_order ''d'' ''CANCELED'')]\<rparr>"

text \<open>
  The symbols of the examples are ASCII. On an ASCII string \<open>str.upper()\<close> moves the
  letters \<open>a\<close> to \<open>z\<close> to \<open>A\<close> to \<open>Z\<close> and keeps every other character; the
  examples pass this function for \<open>upper\<close>.
\<close>

definition ascii_upper_char :: "char \<Rightarrow> char" where
  "ascii_upper_char c =
     (case map_of (zip ''abcdefghijklmnopqrstuvwxyz'' ''ABCDEFGHIJKLMNOPQRSTUVWXYZ'') c of
        None \<Rightarrow> c
      | Some C \<Rightarrow> C)"

definition ascii_upper :: "string \<Rightarrow> string" where
  "ascii_upper s = map ascii_upper_char s"

definition ex_request :: "OrderType \<Rightarrow> pyfloat option \<Rightarrow> string option \<Rightarrow> OrderRequest" where
  "ex_request ty price cid =
     \<lparr>r_symbol = ''aapl'', r_side = BUY, r_qty = Finite 10, r_order_type = ty,
      r_limit_price = price, r_tif = DAY, r_client_order_id = cid\<rparr>"

section \<open>Properties of the order registry\<close>

text \<open>
  Claim C9. For every registry, \<open>get_open_orders\<close> returns exactly the stored orders
  whose status is NEW or PARTIALLY_FILLED: each returned order is a stored order with one
  of these two statuses, so never FILLED, CANCELED or REJECTED, and each stored order with
  one of them is returned. The registry is left as it was.
\<close>

theorem get_open_orders_exact:
  "(\<forall>x \<in> set (fst (get_open_orders st)).
      x \<in> set (values_of (orders st)) \<and>
      (o_status x = ''NEW'' \<or> o_status x = ''PARTIALLY_FILLED'') \<and>
      o_status x \<noteq> ''FILLED'' \<and> o_status x \<noteq> ''CANCELED'' \<and> o_status x \<noteq> ''REJECTED'') \<and>
   (\<forall>x \<in> set (values_of (orders st)).
      o_status x = ''NEW'' \<or> o_status x = ''PARTIALLY_FILLED'' \<longrightarrow>
      x \<in> set (fst (get_open_orders st))) \<and>
   snd (get_open_orders st) = st"
  by (auto simp: get_open_orders_def)

text \<open>
  On the registry of four orders with the statuses NEW, FILLED, PARTIALLY_FILLED and
  CANCELED, the result is the first and the third.
\<close>

theorem get_open_orders_exact_witness:
  "ex_order ''a'' ''NEW'' \<in> set (values_of (orders ex_registry)) \<and>
   ex_order ''a'' ''NEW'' \<in> set (fst (get_open_orders ex_registry)) \<and>
   ex_order ''c'' ''PARTIALLY_FILLED'' \<in> set (fst (get_open_orders ex_registry)) \<and>
   fst (get_open_orders ex_registry) = [ex_order ''a'' ''NEW'', ex_order ''c'' ''PARTIALLY_FILLED'']"
  using get_open_orders_exact [of ex_registry]
  by (simp add: ex_registry_def values_of_def get_open_orders_def ex_order_def)

text \<open>
  Claim C10. For every identifier, \<open>get_order\<close> returns the order stored under it when
  there is one and raises the HTTP 404 exception (the spec's NotFound) when there is
  none; either way the registry is what it was. (The test \<open>not order\<close> of the source is
  true of \<open>None\<close> only: an \<open>Order\<close> object is always true.)
\<close>

theorem get_order_found_or_404:
  "(map_of (orders st) k = Some ord \<longrightarrow> get_order k st = (Inr ord, st)) \<and>
   (map_of (orders st) k = None \<longrightarrow>
      get_order k st = (Inl (HTTPException 404 ''Order not found''), st)) \<and>
   snd (get_order k st) = st"
  by (simp add: get_order_def split: option.split)

theorem get_order_found_or_404_witness:
  "map_of (orders ex_registry) ''c'' = Some (ex_order ''c'' ''PARTIALLY_FILLED'') \<and>
   get_order ''c'' ex_registry = (Inr (ex_order ''c'' ''PARTIALLY_FILLED''), ex_registry) \<and>
   map_of (orders ex_registry) ''zz'' = None \<and>
   get_order ''zz'' ex_registry = (Inl (HTTPException 404 ''Order not found''), ex_registry)"
  using get_order_found_or_404 [of ex_registry "''c''" "ex_order ''c'' ''PARTIALLY_FILLED''"]
    get_order_found_or_404 [of ex_registry "''zz''"]
  by (simp add: ex_registry_def)

text \<open>
  Claim C7. \<open>place_order\<close> raises the HTTP 400 exception (the spec's InvalidRequest)
  exactly when the order type is LIMIT and the limit price is absent, and raises nothing
  else; when it raises, the \<open>STATE\<close> is the one it was given; a LIMIT request with a
  limit price returns an order.
\<close>

theorem place_order_400_iff:
  "(fst (place_order upper u t req st) = Inl (HTTPException 400 ''limit_price required for LIMIT orders'')
      \<longleftrightarrow> r_order_type req = LIMIT \<and> r_limit_price req = None) \<and>
   (isl (fst (place_order upper u t req st))
      \<longleftrightarrow> r_order_type req = LIMIT \<and> r_limit_price req = None) \<and>
   (isl (fst (place_order upper u t req st)) \<longrightarrow> snd (place_order upper u t req st) = st) \<and>
   (r_order_type req = LIMIT \<and> r_limit_price req \<noteq> None \<longrightarrow>
      (\<exists>x. fst (place_order upper u t req st) = Inr x))"
  by (simp add: place_order_def Let_def split: option.split)

theorem place_order_400_iff_witness:
  "place_order ascii_upper ''u1'' 7 (ex_request LIMIT None (Some ''k1'')) ex_registry =
     (Inl (HTTPException 400 ''limit_price required for LIMIT orders''), ex_registry) \<and>
   \<not> isl (fst (place_order ascii_upper ''u1'' 7 (ex_request LIMIT (Some (Finite 150)) (Some ''k1'')) ex_registry))"
  using place_order_400_iff [of ascii_upper "''u1''" 7 "ex_request LIMIT None (Some ''k1'')" ex_registry]
    place_order_400_iff [of ascii_upper "''u1''" 7 "ex_request LIMIT (Some (Finite 150)) (Some ''k1'')" ex_registry]
  by (simp add: ex_request_def prod_eq_iff)

text \<open>
  The loop finds an order that was just stored under the key it looks for, when no
  order had that identifier before.
\<close>

lemma scan_orders_update:
  "scan_orders (Some c) (values_of al) = None \<Longrightarrow> o_id x = c \<Longrightarrow> c \<noteq> [] \<Longrightarrow>
   scan_orders (Some c) (values_of (AList.update c x al)) = Some x"
  by (induction al) (auto simp: values_of_def truthy_def split: if_splits)

text \<open>
  Claim C1, as the source has it. The source tests the truth value of
  \<open>client_order_id\<close>, so an empty string counts as no key at all. For a request whose
  \<open>client_order_id\<close> is a non-empty string: when a call of \<open>place_order\<close> returns an
  order, a second call with the same request on the registry the first one left returns
  that same order, whatever \<open>uuid4\<close> and \<open>utcnow\<close> yield then, and leaves the registry,
  and so its size, as it was.
\<close>

theorem place_order_idempotent:
  assumes "r_client_order_id req = Some c" and "c \<noteq> []"
    and "place_order upper u t req st = (Inr x, st')"
  shows "place_order upper u' t' req st' = (Inr x, st') \<and>
         length (orders (snd (place_order upper u' t' req st'))) = length (orders st')"
proof -
  from assms(3) have valid: "\<not> (r_order_type req = LIMIT \<and> r_limit_price req = None)"
    by (auto simp: place_order_def split: if_splits)
  have "place_order upper u' t' req st' = (Inr x, st')"
  proof (cases "scan_orders (Some c) (values_of (orders st))")
    case (Some y)
    with assms valid have "x = y" "st' = st"
      by (auto simp: place_order_def)
    with Some assms(1) valid show ?thesis
      by (auto simp: place_order_def)
  next
    case None
    with assms valid have id_x: "o_id x = c"
      and st': "st' = st\<lparr>orders := AList.update c x (orders st)\<rparr>"
      by (auto simp: place_order_def Let_def str_or_def)
    from scan_orders_update [OF None id_x assms(2)]
    have "scan_orders (Some c) (values_of (orders st')) = Some x"
      by (simp add: st')
    with assms(1) valid show ?thesis
      by (simp add: place_order_def)
  qed
  then show ?thesis by simp
qed

theorem place_order_idempotent_witness:
  "place_order ascii_upper ''u1'' 7 (ex_request MARKET None (Some ''k1'')) ex_registry =
     (Inr \<lparr>o_id = ''k1'', o_symbol = ''AAPL'', o_side = BUY, o_qty = Finite 10,
           o_order_type = MARKET, o_limit_price = None, o_tif = DAY, o_status = ''NEW'',
           o_created_at = 7, o_avg_fill_price = None, o_filled_qty = Finite 0\<rparr>,
      snd (place_order ascii_upper ''u1'' 7 (ex_request MARKET None (Some ''k1'')) ex_registry)) \<and>
   place_order ascii_upper ''u2'' 8 (ex_request MARKET None (Some ''k1''))
       (snd (place_order ascii_upper ''u1'' 7 (ex_request MARKET None (Some ''k1'')) ex_registry)) =
     place_order ascii_upper ''u1'' 7 (ex_request MARKET None (Some ''k1'')) ex_registry"
proof -
  let ?req = "ex_request MARKET None (Some ''k1'')"
  let ?x = "\<lparr>o_id = ''k1'', o_symbol = ''AAPL'', o_side = BUY, o_qty = Finite 10,
           o_order_type = MARKET, o_limit_price = None, o_tif = DAY, o_status = ''NEW'',
           o_created_at = 7, o_avg_fill_price = None, o_filled_qty = Finite 0\<rparr>"
  let ?st' = "snd (place_order ascii_upper ''u1'' 7 ?req ex_registry)"
  have cid: "r_client_order_id ?req = Some ''k1''"
    by (simp add: ex_request_def)
  have first: "place_order ascii_upper ''u1'' 7 ?req ex_registry = (Inr ?x, ?st')"
    by (simp add: place_order_def ex_request_def ex_registry_def ex_order_def values_of_def
        truthy_def str_or_def ascii_upper_def ascii_upper_char_def Let_def)
  from place_order_idempotent [OF cid _ first, of "''u2''" 8] first show ?thesis
    by simp
qed

text \<open>
  Claim C1 as stated, for every non-null \<open>client_order_id\<close>, fails at the empty string:
  two calls with that request create two orders under two generated identifiers, and the
  registry grows from one order to two.
\<close>

theorem place_order_empty_key_not_idempotent:
  "r_client_order_id (ex_request MARKET None (Some [])) = Some [] \<and>
   fst (place_order ascii_upper ''u1'' 7 (ex_request MARKET None (Some [])) (STATE_initial 0)) =
     Inr \<lparr>o_id = ''u1'', o_symbol = ''AAPL'', o_side = BUY, o_qty = Finite 10,
           o_order_type = MARKET, o_limit_price = None, o_tif = DAY, o_status = ''NEW'',
           o_created_at = 7, o_avg_fill_price = None, o_filled_qty = Finite 0\<rparr> \<and>
   fst (place_order ascii_upper ''u2'' 8 (ex_request MARKET None (Some []))
         (snd (place_order ascii_upper ''u1'' 7 (ex_request MARKET None (Some [])) (STATE_initial 0)))) =
     Inr \<lparr>o_id = ''u2'', o_symbol = ''AAPL'', o_side = BUY, o_qty = Finite 10,
           o_order_type = MARKET, o_limit_price = None, o_tif = DAY, o_status = ''NEW'',
           o_created_at = 8, o_avg_fill_price = None, o_filled_qty = Finite 0\<rparr> \<and>
   length (orders (snd (place_order ascii_upper ''u1'' 7 (ex_request MARKET None (Some [])) (STATE_initial 0)))) = 1 \<and>
   length (orders (snd (place_order ascii_upper ''u2'' 8 (ex_request MARKET None (Some []))
         (snd (place_order ascii_upper ''u1'' 7 (ex_request MARKET None (Some [])) (STATE_initial 0)))))) = 2"
  by (simp add: place_order_def ex_request_def STATE_initial_def values_of_def
        truthy_def str_or_def ascii_upper_def ascii_upper_char_def Let_def)

text \<open>
  Claim C8, as the source has it. When the request passes validation and the loop finds
  no order with its key, \<open>place_order\<close> returns a new order whose symbol is the request's
  symbol upper-cased by \<open>str.upper\<close>, whose status is NEW, whose filled quantity is 0
  and whose average fill price is unset; its identifier is the \<open>client_order_id\<close> when that is a non-empty
  string and the generated UUID when it is absent or empty; and the order is stored in
  the registry under that identifier.
\<close>

theorem place_order_creates:
  assumes "\<not> (r_order_type req = LIMIT \<and> r_limit_price req = None)"
    and "scan_orders (r_client_order_id req) (values_of (orders st)) = None"
  shows "\<exists>x. place_order upper u t req st = (Inr x, st\<lparr>orders := AList.update (o_id x) x (orders st)\<rparr>) \<and>
           o_symbol x = upper (r_symbol req) \<and>
           o_status x = ''NEW'' \<and>
           o_filled_qty x = Finite 0 \<and>
           o_avg_fill_price x = None \<and>
           o_id x = (case r_client_order_id req of
                       None \<Rightarrow> u
                     | Some c \<Rightarrow> if c = [] then u else c) \<and>
           map_of (orders (snd (place_order upper u t req st))) (o_id x) = Some x"
  using assms
  by (auto simp: place_order_def Let_def str_or_def update_conv' split: option.split)

theorem place_order_creates_witness:
  "place_order ascii_upper ''u1'' 7 (ex_request LIMIT (Some (Finite 150)) (Some ''k1'')) ex_registry =
     (Inr \<lparr>o_id = ''k1'', o_symbol = ''AAPL'', o_side = BUY, o_qty = Finite 10,
           o_order_type = LIMIT, o_limit_price = Some (Finite 150), o_tif = DAY,
           o_status = ''NEW'', o_created_at = 7, o_avg_fill_price = None,
           o_filled_qty = Finite 0\<rparr>,
      ex_registry\<lparr>orders := orders ex_registry @
        [(''k1'', \<lparr>o_id = ''k1'', o_symbol = ''AAPL'', o_side = BUY, o_qty = Finite 10,
           o_order_type = LIMIT, o_limit_price = Some (Finite 150), o_tif = DAY,
           o_status = ''NEW'', o_created_at = 7, o_avg_fill_price = None,
           o_filled_qty = Finite 0\<rparr>)]\<rparr>)"
proof -
  let ?req = "ex_request LIMIT (Some (Finite 150)) (Some ''k1'')"
  have valid: "\<not> (r_order_type ?req = LIMIT \<and> r_limit_price ?req = None)"
    by (simp add: ex_request_def)
  have fresh: "scan_orders (r_client_order_id ?req) (values_of (orders ex_registry)) = None"
    by (simp add: ex_request_def ex_registry_def ex_order_def values_of_def truthy_def)
  from place_order_creates [OF valid fresh, of ascii_upper "''u1''" 7]
  obtain x where x: "place_order ascii_upper ''u1'' 7 ?req ex_registry =
        (Inr x, ex_registry\<lparr>orders := AList.update (o_id x) x (orders ex_registry)\<rparr>)"
      "o_symbol x = ascii_upper (r_symbol ?req)" "o_status x = ''NEW''" "o_filled_qty x = Finite 0"
      "o_avg_fill_price x = None" "o_id x = ''k1''"
    by (auto simp: ex_request_def)
  have "x = \<lparr>o_id = ''k1'', o_symbol = ''AAPL'', o_side = BUY, o_qty = Finite 10,
           o_order_type = LIMIT, o_limit_price = Some (Finite 150), o_tif = DAY,
           o_status = ''NEW'', o_created_at = 7, o_avg_fill_price = None,
           o_filled_qty = Finite 0\<rparr>"
    using x(1)
    by (simp add: place_order_def ex_request_def ex_registry_def ex_order_def values_of_def
        truthy_def str_or_def ascii_upper_def ascii_upper_char_def Let_def)
  with x(1) show ?thesis
    by (simp add: ex_registry_def)
qed

text \<open>
  Claim C8 as stated gives the new order the supplied \<open>client_order_id\<close> as identifier.
  With the empty string supplied, in a request that passes validation and matches no
  stored order, the identifier is the generated UUID \<open>u1\<close> and not the empty string.
\<close>

theorem place_order_empty_key_gets_uuid:
  "r_client_order_id (ex_request MARKET None (Some [])) = Some [] \<and>
   r_order_type (ex_request MARKET None (Some [])) \<noteq> LIMIT \<and>
   scan_orders (Some []) (values_of (orders ex_registry)) = None \<and>
   fst (place_order ascii_upper ''u1'' 7 (ex_request MARKET None (Some [])) ex_registry) =
     Inr \<lparr>o_id = ''u1'', o_symbol = ''AAPL'', o_side = BUY, o_qty = Finite 10,
           o_order_type = MARKET, o_limit_price = None, o_tif = DAY, o_status = ''NEW'',
           o_created_at = 7, o_avg_fill_price = None, o_filled_qty = Finite 0\<rparr>"
  by (simp add: place_order_def ex_request_def ex_registry_def ex_order_def values_of_def
        truthy_def str_or_def ascii_upper_def ascii_upper_char_def Let_def)

section \<open>Properties of rounding\<close>

text \<open>
  The exponent that \<open>ilog2\<close> returns is not too large: \<open>2 powi ilog2 x\<close> is at
  most \<open>x\<close>.
\<close>

lemma ilog2_lower:
  assumes "0 < x"
  shows "2 powi (ilog2 x) \<le> x"
proof (cases "1 \<le> x")
  case True
  then have pos: "0 < \<lfloor>x\<rfloor>" by linarith
  from bitlen_bounds [OF pos] have b: "2 ^ nat (bitlen \<lfloor>x\<rfloor> - 1) \<le> \<lfloor>x\<rfloor>" by simp
  from pos have ge: "1 \<le> bitlen \<lfloor>x\<rfloor>"
    using bitlen_eq_zero_iff [of "\<lfloor>x\<rfloor>"] bitlen_nonneg [of "\<lfloor>x\<rfloor>"] by linarith
  have "(2::rat) powi (bitlen \<lfloor>x\<rfloor> - 1) = of_int (2 ^ nat (bitlen \<lfloor>x\<rfloor> - 1))"
    using ge by (simp add: power_int_def)
  also have "\<dots> \<le> of_int \<lfloor>x\<rfloor>" using b by (simp only: of_int_le_iff)
  also have "\<dots> \<le> x" by simp
  finally show ?thesis using True by (simp add: ilog2_def)
next
  case False
  let ?m = "\<lceil>1 / x\<rceil>"
  let ?k = "bitlen (?m - 1)"
  from False assms have "1 < 1 / x" by simp
  then have m2: "0 < ?m - 1" by linarith
  from bitlen_bounds [OF m2] have "?m - 1 < 2 ^ nat ?k" by simp
  then have "?m \<le> 2 ^ nat ?k" by linarith
  then have "(of_int ?m :: rat) \<le> 2 ^ nat ?k"
    by (simp only: of_int_le_numeral_power_cancel_iff)
  moreover have "1 / x \<le> of_int ?m" by (rule le_of_int_ceiling)
  ultimately have "1 / x \<le> 2 ^ nat ?k" by (rule order_trans [rotated])
  with assms have "1 / 2 ^ nat ?k \<le> x"
    by (simp add: field_simps)
  moreover have "(2::rat) powi (- ?k) = 1 / 2 ^ nat ?k"
    using bitlen_nonneg [of "?m - 1"] by (simp add: power_int_def inverse_eq_divide power_one_over)
  ultimately show ?thesis using False by (simp add: ilog2_def)
qed

text \<open>And not too small: \<open>x\<close> is below the next power of two.\<close>

lemma ilog2_upper:
  assumes "0 < x"
  shows "x < 2 powi (ilog2 x + 1)"
proof (cases "1 \<le> x")
  case True
  then have pos: "0 < \<lfloor>x\<rfloor>" by linarith
  from bitlen_bounds [OF pos] have "\<lfloor>x\<rfloor> + 1 \<le> 2 ^ nat (bitlen \<lfloor>x\<rfloor>)" by simp
  then have "(of_int (\<lfloor>x\<rfloor> + 1) :: rat) \<le> 2 ^ nat (bitlen \<lfloor>x\<rfloor>)"
    by (simp only: of_int_le_numeral_power_cancel_iff)
  moreover have "x < of_int (\<lfloor>x\<rfloor> + 1)" by linarith
  ultimately have "x < 2 ^ nat (bitlen \<lfloor>x\<rfloor>)" by (rule less_le_trans [rotated])
  moreover have "(2::rat) powi (bitlen \<lfloor>x\<rfloor> - 1 + 1) = 2 ^ nat (bitlen \<lfloor>x\<rfloor>)"
    using bitlen_nonneg [of "\<lfloor>x\<rfloor>"] by (simp add: power_int_def)
  ultimately show ?thesis using True by (simp add: ilog2_def)
next
  case False
  let ?m = "\<lceil>1 / x\<rceil>"
  let ?k = "bitlen (?m - 1)"
  from False assms have "1 < 1 / x" by simp
  then have m2: "0 < ?m - 1" by linarith
  then have k1: "1 \<le> ?k"
    using bitlen_eq_zero_iff [of "?m - 1"] bitlen_nonneg [of "?m - 1"] by linarith
  from bitlen_bounds [OF m2] have "2 ^ nat (?k - 1) \<le> ?m - 1" by simp
  then have "(2::rat) ^ nat (?k - 1) \<le> of_int (?m - 1)"
    by (simp only: numeral_power_le_of_int_cancel_iff)
  moreover have "of_int (?m - 1) < 1 / x" by linarith
  ultimately have "2 ^ nat (?k - 1) < 1 / x" by (rule le_less_trans)
  with assms have "x < 1 / 2 ^ nat (?k - 1)"
    by (simp add: field_simps)
  moreover have "(2::rat) powi (- ?k + 1) = 1 / 2 ^ nat (?k - 1)"
  proof -
    have "- ?k + 1 = - (?k - 1)" by simp
    then have "(2::rat) powi (- ?k + 1) = inverse (2 powi (?k - 1))"
      by (simp only: power_int_minus)
    also have "\<dots> = 1 / 2 ^ nat (?k - 1)"
      using k1 by (simp add: power_int_def inverse_eq_divide)
    finally show ?thesis .
  qed
  ultimately show ?thesis using False by (simp add: ilog2_def)
qed

text \<open>
  Rounding to an integer moves to one of the two neighbours, and never to 0 from a
  number of magnitude 1 or more.
\<close>

lemma round_half_even_cases:
  "round_half_even y = \<lfloor>y\<rfloor> \<or> round_half_even y = \<lfloor>y\<rfloor> + 1"
  by (simp add: round_half_even_def Let_def)

lemma round_half_even_up:
  "round_half_even y = \<lfloor>y\<rfloor> + 1 \<Longrightarrow> of_int \<lfloor>y\<rfloor> + 1 / 2 \<le> y"
  by (simp add: round_half_even_def Let_def split: if_splits)

lemma round_half_even_nonzero:
  assumes "1 \<le> \<bar>y\<bar>"
  shows "round_half_even y \<noteq> 0"
proof (cases "0 \<le> y")
  case True
  with assms have "1 \<le> \<lfloor>y\<rfloor>" by linarith
  with round_half_even_cases [of y] show ?thesis by linarith
next
  case False
  with assms have le: "y \<le> - 1" by linarith
  then have f: "\<lfloor>y\<rfloor> \<le> - 1" by linarith
  from round_half_even_cases [of y] show ?thesis
  proof
    assume "round_half_even y = \<lfloor>y\<rfloor>"
    with f show ?thesis by linarith
  next
    assume up: "round_half_even y = \<lfloor>y\<rfloor> + 1"
    from round_half_even_up [OF up] le have "of_int \<lfloor>y\<rfloor> < (- 1 :: rat)" by linarith
    then have "\<lfloor>y\<rfloor> < - 1" by linarith
    with up show ?thesis by linarith
  qed
qed

text \<open>
  No underflow to zero: a number of magnitude at least \<open>2 powi -1074\<close>, the smallest
  positive binary64 value, does not round to zero.
\<close>

lemma round_double_nonzero:
  assumes "2 powi (- 1074) \<le> \<bar>x\<bar>"
  shows "round_double x \<noteq> Finite 0"
proof -
  let ?e = "max (ilog2 \<bar>x\<bar>) (- 1022) - 52"
  have "(0::rat) < 2 powi (- 1074)" by simp
  with assms have pos: "0 < \<bar>x\<bar>" by linarith
  then have x0: "x \<noteq> 0" by simp
  have "(2::rat) powi ?e \<le> \<bar>x\<bar>"
  proof (cases "ilog2 \<bar>x\<bar> \<le> - 1022")
    case True
    then have "?e = - 1074" by simp
    with assms show ?thesis by simp
  next
    case False
    then have "?e \<le> ilog2 \<bar>x\<bar>" by simp
    then have "(2::rat) powi ?e \<le> 2 powi (ilog2 \<bar>x\<bar>)"
      by (intro power_int_increasing) simp_all
    also have "\<dots> \<le> \<bar>x\<bar>" by (rule ilog2_lower [OF pos])
    finally show ?thesis .
  qed
  moreover have p: "(0::rat) < 2 powi ?e" by simp
  ultimately have "1 \<le> \<bar>x\<bar> / 2 powi ?e"
    by (simp add: field_simps)
  then have "1 \<le> \<bar>x / 2 powi ?e\<bar>" by simp
  then have "round_half_even (x / 2 powi ?e) \<noteq> 0"
    by (rule round_half_even_nonzero)
  then have "of_int (round_half_even (x / 2 powi ?e)) * 2 powi ?e \<noteq> (0::rat)"
    using p by simp
  then show ?thesis
    using x0 by (simp add: round_double_def Let_def)
qed

lemma round_double_FiniteD:
  assumes "round_double x = Finite q" and "x \<noteq> 0"
    and "e = max (ilog2 \<bar>x\<bar>) (- 1022) - 52"
  shows "q = of_int (round_half_even (x / 2 powi e)) * 2 powi e"
  using assms by (simp add: round_double_def Let_def split: if_splits)

text \<open>
  A binary64 value in the interval from 1/2 to 1 is a multiple of \<open>1 / 2 ^ 53\<close>, so its
  distance to 1 is at least that, and \<open>1 - p\<close> is not zero in floating point either.
\<close>

lemma double_below_one:
  assumes "is_double p" and "1 / 2 \<le> p" and "p < 1"
  shows "\<exists>n. p = of_int n / 2 ^ 53"
proof -
  from assms have "1 < 1 / p" "1 / p \<le> 2" by (simp_all add: field_simps)
  then have "\<lceil>1 / p\<rceil> = 2" by linarith
  then have "bitlen (\<lceil>1 / p\<rceil> - 1) = 1" by (simp add: compute_bitlen)
  with assms have "ilog2 \<bar>p\<bar> = - 1" by (simp add: ilog2_def)
  then have e: "- 53 = max (ilog2 \<bar>p\<bar>) (- 1022) - 52" by simp
  from assms have "round_double p = Finite p" "p \<noteq> 0" by (simp_all add: is_double_def)
  from round_double_FiniteD [OF this e]
  have "p = of_int (round_half_even (p / 2 powi (- 53))) * 2 powi (- 53)" .
  then have "p = of_int (round_half_even (p / 2 powi (- 53))) / 2 ^ 53"
    by (simp only: power_int_minus power_int_numeral divide_inverse)
  then show ?thesis ..
qed

lemma one_minus_double_nonzero:
  assumes "is_double p" and "1 / 2 \<le> p" and "p < 1"
  shows "fsub (Finite 1) (Finite p) \<noteq> Finite 0"
proof -
  from double_below_one [OF assms] obtain n where n: "p = of_int n / 2 ^ 53" ..
  with assms(3) have "of_int n < (2::rat) ^ 53" by (simp add: field_simps)
  then have "n < 2 ^ 53" by (simp only: of_int_less_numeral_power_cancel_iff)
  then have "1 \<le> 2 ^ 53 - n" by simp
  then have "(1::rat) \<le> of_int (2 ^ 53 - n)" by (simp only: of_int_1_le_iff)
  then have "1 / 2 ^ 53 \<le> 1 - p" using n by (simp add: field_simps)
  moreover have "(2::rat) powi (- 1074) \<le> 1 / 2 ^ 53"
    by (simp add: power_int_minus inverse_eq_divide field_simps)
  ultimately have "2 powi (- 1074) \<le> \<bar>1 - p\<bar>" by linarith
  then have "round_double (1 - p) \<noteq> Finite 0" by (rule round_double_nonzero)
  then show ?thesis by (simp add: fsub_def)
qed

text \<open>The literals \<open>0.4\<close> and \<open>0.6\<close>, and the arithmetic of the examples, evaluated.\<close>

lemma literal_04: "float_literal (4 / 10) = Finite (3602879701896397 / 9007199254740992)"
  by code_simp

lemma literal_06: "float_literal (6 / 10) = Finite (5404319552844595 / 9007199254740992)"
  by code_simp

lemma is_double_04: "is_double (3602879701896397 / 9007199254740992)"
  by code_simp

lemma is_double_06: "is_double (5404319552844595 / 9007199254740992)"
  by code_simp

lemma underdog_04:
  "fsub (fdiv (Finite 100) (Finite (3602879701896397 / 9007199254740992))) (Finite 100) = Finite 150"
  by code_simp

lemma favourite_06:
  "fdiv (fneg (fmul (Finite 100) (Finite (5404319552844595 / 9007199254740992))))
     (fsub (Finite 1) (Finite (5404319552844595 / 9007199254740992))) = Finite (- 150)"
  by code_simp

lemma net_minus_150:
  "american_to_net (Finite (- 150)) = Inr (Finite (1501199875790165 / 2251799813685248))"
  by code_simp

lemma kelly_06_minus_150:
  "fdiv (fsub (fmul (Finite (1501199875790165 / 2251799813685248))
                   (Finite (5404319552844595 / 9007199254740992)))
              (fsub (Finite 1) (Finite (5404319552844595 / 9007199254740992))))
        (Finite (1501199875790165 / 2251799813685248)) =
   Finite (- (3377699720527873 / 20282409603651670423947251286016))"
  by code_simp

lemma literal_07: "float_literal (7 / 10) = Finite (3152519739159347 / 4503599627370496)"
  by code_simp

lemma kelly_07_minus_150:
  "fdiv (fsub (fmul (Finite (1501199875790165 / 2251799813685248))
                   (Finite (3152519739159347 / 4503599627370496)))
              (fsub (Finite 1) (Finite (3152519739159347 / 4503599627370496))))
        (Finite (1501199875790165 / 2251799813685248)) =
   Finite (9007199254740983 / 36028797018963968)"
  by code_simp

text \<open>
  What \<open>max(0.0, q)\<close> is, case by case: the larger of 0 and a finite \<open>q\<close>, positive
  infinity itself, and 0.0 for negative infinity and for a NaN, which is greater than
  nothing.
\<close>

lemma py_max_zero:
  "py_max (Finite 0) q =
     (case q of Finite x \<Rightarrow> Finite (max 0 x) | PosInf \<Rightarrow> PosInf | NegInf \<Rightarrow> Finite 0
      | NaN \<Rightarrow> Finite 0)"
  by (cases q) (simp_all add: py_max_def fgt_def max_def)

section \<open>Properties of the odds calculator\<close>

text \<open>
  Claim C2. For every \<open>currentOdds\<close>, the call \<open>StatCalculations(currentOdds)\<close> raises
  \<open>AttributeError\<close>: \<open>__init__\<close> assigns \<open>__currentOdds\<close> and then reads
  \<open>__expectedValue\<close>, which nothing has assigned. So the call never yields an instance.
\<close>

theorem constructor_always_raises:
  "new_StatCalculations currentOdds = Inl AttributeError \<and>
   init currentOdds new_instance =
     (Inl AttributeError, new_instance\<lparr>attr_currentOdds := Some currentOdds\<rparr>)"
  by (simp add: new_StatCalculations_def init_def new_instance_def)

text \<open>
  Claim C3. \<open>implied_probability_to_american\<close> raises \<open>ZeroDivisionError\<close> (the spec's
  DomainError) for the probability 0, in the branch \<open>100 / currentOdds\<close>, and for the
  probability 1, in the other branch, where \<open>1 - currentOdds\<close> is zero;
  \<open>american_to_decimal\<close> raises it for the odds 0. The instance is left as it was.
\<close>

theorem degenerate_inputs_raise:
  "implied_probability_to_american (Finite 0) self = (Inl ZeroDivisionError, self) \<and>
   implied_probability_to_american (Finite 1) self = (Inl ZeroDivisionError, self) \<and>
   american_to_decimal (Finite 0) = Inl ZeroDivisionError"
  by (simp add: implied_probability_to_american_def american_to_decimal_def py_truediv_def
      fsub_def fgt_def round_double_def)

text \<open>
  Claim C6. For every binary64 probability \<open>p\<close> with \<open>0 < p < 1\<close>,
  \<open>implied_probability_to_american\<close> raises nothing, returns \<open>100 / p - 100\<close> when
  \<open>p < 0.5\<close> and \<open>-(100 * p) / (1 - p)\<close> otherwise, each operation being the float
  operation of the source, and assigns the returned value to \<open>__americanOdds\<close>. For the
  literal \<open>0.4\<close> the value is 150.0 and for the literal \<open>0.6\<close> it is -150.0.
\<close>

theorem implied_probability_to_american_value:
  "(is_double p \<and> 0 < p \<and> p < 1 \<longrightarrow>
      implied_probability_to_american (Finite p) self =
        (let v = (if p < 1 / 2 then fsub (fdiv (Finite 100) (Finite p)) (Finite 100)
                  else fdiv (fneg (fmul (Finite 100) (Finite p))) (fsub (Finite 1) (Finite p)))
         in (Inr v, self\<lparr>attr_americanOdds := Some v\<rparr>))) \<and>
   implied_probability_to_american (float_literal (4 / 10)) self =
     (Inr (Finite 150), self\<lparr>attr_americanOdds := Some (Finite 150)\<rparr>) \<and>
   implied_probability_to_american (float_literal (6 / 10)) self =
     (Inr (Finite (- 150)), self\<lparr>attr_americanOdds := Some (Finite (- 150))\<rparr>)"
proof -
  have general: "implied_probability_to_american (Finite p) self =
        (let v = (if p < 1 / 2 then fsub (fdiv (Finite 100) (Finite p)) (Finite 100)
                  else fdiv (fneg (fmul (Finite 100) (Finite p))) (fsub (Finite 1) (Finite p)))
         in (Inr v, self\<lparr>attr_americanOdds := Some v\<rparr>))"
    if "is_double p" "0 < p" "p < 1" for p self
  proof (cases "p < 1 / 2")
    case True
    with that show ?thesis
      by (simp add: implied_probability_to_american_def py_truediv_def Let_def)
  next
    case False
    with that have "fsub (Finite 1) (Finite p) \<noteq> Finite 0"
      by (intro one_minus_double_nonzero) simp_all
    with False show ?thesis
      by (simp add: implied_probability_to_american_def py_truediv_def Let_def)
  qed
  have underdog: "implied_probability_to_american
        (Finite (3602879701896397 / 9007199254740992)) self =
      (Inr (Finite 150), self\<lparr>attr_americanOdds := Some (Finite 150)\<rparr>)"
    using general [OF is_double_04, of self]
    by (simp del: fadd.simps fmul.simps fdiv.simps add: underdog_04 Let_def)
  have favourite: "implied_probability_to_american
        (Finite (5404319552844595 / 9007199254740992)) self =
      (Inr (Finite (- 150)), self\<lparr>attr_americanOdds := Some (Finite (- 150))\<rparr>)"
    using general [OF is_double_06, of self]
    by (simp del: fadd.simps fmul.simps fdiv.simps add: favourite_06 Let_def)
  from general [of p self] underdog favourite show ?thesis
    unfolding literal_04 literal_06 by blast
qed

theorem implied_probability_to_american_value_witness:
  "is_double (3602879701896397 / 9007199254740992) \<and>
   implied_probability_to_american (Finite (3602879701896397 / 9007199254740992)) new_instance =
     (Inr (Finite 150), new_instance\<lparr>attr_americanOdds := Some (Finite 150)\<rparr>) \<and>
   is_double (5404319552844595 / 9007199254740992) \<and>
   implied_probability_to_american (Finite (5404319552844595 / 9007199254740992)) new_instance =
     (Inr (Finite (- 150)), new_instance\<lparr>attr_americanOdds := Some (Finite (- 150))\<rparr>)"
  using implied_probability_to_american_value
    [of "3602879701896397 / 9007199254740992" new_instance]
    implied_probability_to_american_value
    [of "5404319552844595 / 9007199254740992" new_instance]
  by (simp del: fadd.simps fmul.simps fdiv.simps
      add: is_double_04 is_double_06 underdog_04 favourite_06 Let_def)

text \<open>
  Claim C4. On an instance whose \<open>__currentOdds\<close> and \<open>__americanOdds\<close> are assigned,
  with \<open>netOdds = american_to_net(__americanOdds)\<close> not zero, \<open>kelly_criterion\<close> returns
  the quotient \<open>q = (netOdds * probWin - probLoss) / netOdds\<close>, where
  \<open>probWin = __currentOdds\<close> and \<open>probLoss = 1 - probWin\<close>, floored at 0: \<open>q\<close> itself
  when it is positive, finite or infinite, and 0.0 when it is zero, negative or a NaN. It
  assigns that value to \<open>__optimalBetSize\<close>. With the current odds \<open>0.6\<close> and the
  American odds -150 the quotient is negative and the result is exactly 0.0.
\<close>

theorem kelly_criterion_value:
  "(attr_currentOdds self = Some probWin \<and> attr_americanOdds self = Some americanOdds \<and>
    american_to_net americanOdds = Inr netOdds \<and> netOdds \<noteq> Finite 0 \<longrightarrow>
      kelly_criterion self =
        (let probLoss = fsub (Finite 1) probWin;
             q = fdiv (fsub (fmul netOdds probWin) probLoss) netOdds;
             v = (case q of
                    Finite x \<Rightarrow> Finite (max 0 x)
                  | PosInf \<Rightarrow> PosInf
                  | NegInf \<Rightarrow> Finite 0
                  | NaN \<Rightarrow> Finite 0)
         in (Inr v, self\<lparr>attr_optimalBetSize := Some v\<rparr>))) \<and>
   (attr_currentOdds self = Some (float_literal (6 / 10)) \<and>
    attr_americanOdds self = Some (Finite (- 150)) \<longrightarrow>
      kelly_criterion self = (Inr (Finite 0), self\<lparr>attr_optimalBetSize := Some (Finite 0)\<rparr>))"
proof -
  have general: "kelly_criterion self =
        (let probLoss = fsub (Finite 1) probWin;
             q = fdiv (fsub (fmul netOdds probWin) probLoss) netOdds;
             v = (case q of
                    Finite x \<Rightarrow> Finite (max 0 x)
                  | PosInf \<Rightarrow> PosInf
                  | NegInf \<Rightarrow> Finite 0
                  | NaN \<Rightarrow> Finite 0)
         in (Inr v, self\<lparr>attr_optimalBetSize := Some v\<rparr>))"
    if "attr_currentOdds self = Some probWin" "attr_americanOdds self = Some americanOdds"
      "american_to_net americanOdds = Inr netOdds" "netOdds \<noteq> Finite 0"
    for probWin americanOdds netOdds
    using that by (simp add: kelly_criterion_def py_truediv_def Let_def py_max_zero)
  have example: "kelly_criterion self =
      (Inr (Finite 0), self\<lparr>attr_optimalBetSize := Some (Finite 0)\<rparr>)"
    if "attr_currentOdds self = Some (Finite (5404319552844595 / 9007199254740992))"
      "attr_americanOdds self = Some (Finite (- 150))"
    using general [OF that net_minus_150]
    by (simp del: fadd.simps fmul.simps fdiv.simps add: kelly_06_minus_150 Let_def)
  from general example show ?thesis
    unfolding literal_06 by blast
qed

text \<open>
  Two instances: the current odds \<open>0.6\<close>, where the quotient is negative and the result
  0.0, and the current odds \<open>0.7\<close>, where the quotient is positive and is the result,
  \<open>0.24999999999999975\<close>; the American odds are -150 in both.
\<close>

theorem kelly_criterion_value_witness:
  "american_to_net (Finite (- 150)) = Inr (Finite (1501199875790165 / 2251799813685248)) \<and>
   kelly_criterion
     (new_instance\<lparr>attr_currentOdds := Some (float_literal (6 / 10)),
                    attr_americanOdds := Some (Finite (- 150))\<rparr>) =
     (Inr (Finite 0),
      new_instance\<lparr>attr_currentOdds := Some (float_literal (6 / 10)),
                    attr_americanOdds := Some (Finite (- 150)),
                    attr_optimalBetSize := Some (Finite 0)\<rparr>) \<and>
   kelly_criterion
     (new_instance\<lparr>attr_currentOdds := Some (float_literal (7 / 10)),
                    attr_americanOdds := Some (Finite (- 150))\<rparr>) =
     (Inr (Finite (9007199254740983 / 36028797018963968)),
      new_instance\<lparr>attr_currentOdds := Some (float_literal (7 / 10)),
                    attr_americanOdds := Some (Finite (- 150)),
                    attr_optimalBetSize := Some (Finite (9007199254740983 / 36028797018963968))\<rparr>)"
  unfolding literal_06 literal_07
  using kelly_criterion_value
    [of "new_instance\<lparr>attr_currentOdds := Some (Finite (5404319552844595 / 9007199254740992)),
                       attr_americanOdds := Some (Finite (- 150))\<rparr>"
        "Finite (5404319552844595 / 9007199254740992)" "Finite (- 150)"
        "Finite (1501199875790165 / 2251799813685248)"]
    kelly_criterion_value
    [of "new_instance\<lparr>attr_currentOdds := Some (Finite (3152519739159347 / 4503599627370496)),
                       attr_americanOdds := Some (Finite (- 150))\<rparr>"
        "Finite (3152519739159347 / 4503599627370496)" "Finite (- 150)"
        "Finite (1501199875790165 / 2251799813685248)"]
  by (simp del: fadd.simps fmul.simps fdiv.simps
      add: net_minus_150 kelly_06_minus_150 kelly_07_minus_150 Let_def)

text \<open>
  While \<open>__americanOdds\<close> is unassigned \<open>kelly_criterion\<close> raises, and no method but
  \<open>implied_probability_to_american\<close> assigns it.
\<close>

lemma kelly_criterion_unset:
  "attr_americanOdds self = None \<Longrightarrow> kelly_criterion self = (Inl AttributeError, self)"
  by (simp add: kelly_criterion_def Let_def split: option.split)

lemma after_call_unset:
  "\<not> is_conversion c \<Longrightarrow> attr_americanOdds self = None \<Longrightarrow>
   attr_americanOdds (after_call c self) = None"
  by (cases c)
    (auto simp: init_def expected_value_def kelly_criterion_def Let_def
      split: option.split sum.split)

lemma after_calls_unset:
  "list_all (\<lambda>c. \<not> is_conversion c) cs \<Longrightarrow> attr_americanOdds self = None \<Longrightarrow>
   attr_americanOdds (after_calls cs self) = None"
  by (induction cs arbitrary: self) (simp_all add: after_call_unset)

text \<open>
  Claim C5. On an instance on which \<open>implied_probability_to_american\<close> has not been
  called, whatever else has been called on it, \<open>kelly_criterion\<close> raises
  \<open>AttributeError\<close> (the spec's UninitializedState) and returns no value.
\<close>

theorem kelly_criterion_before_conversion:
  assumes "list_all (\<lambda>c. \<not> is_conversion c) cs"
  shows "kelly_criterion (after_calls cs new_instance) =
           (Inl AttributeError, after_calls cs new_instance)"
proof -
  have "attr_americanOdds new_instance = None" by (simp add: new_instance_def)
  with assms have "attr_americanOdds (after_calls cs new_instance) = None"
    by (rule after_calls_unset)
  then show ?thesis by (rule kelly_criterion_unset)
qed

theorem kelly_criterion_before_conversion_witness:
  "list_all (\<lambda>c. \<not> is_conversion c)
     [Call_init (Finite (1 / 2)), Call_expected_value (Finite (1 / 2)) (Finite 100) (Finite 1)] \<and>
   fst (kelly_criterion
         (after_calls
           [Call_init (Finite (1 / 2)), Call_expected_value (Finite (1 / 2)) (Finite 100) (Finite 1)]
           new_instance)) = Inl AttributeError"
  using kelly_criterion_before_conversion
    [of "[Call_init (Finite (1 / 2)), Call_expected_value (Finite (1 / 2)) (Finite 100) (Finite 1)]"]
  by simp

end
